theory Spec2Isabelle
  imports Main "HOL-Library.Word"
begin

unbundle bit_operations_syntax

section \<open>Machine integers\<close>

text \<open>
  The driver works on \<open>uint8_t\<close> and \<open>uint16_t\<close>. Both are words of fixed width here, so
  that assignments truncate and \<open>7 - row\<close> wraps as in the source. Where C++ promotes an
  operand to \<open>int\<close> before an operation, the model does the operation on \<open>int\<close> and
  truncates at the assignment, or does it on the word where truncation commutes with it
  (\<open>OR\<close>, \<open>AND\<close>, \<open>NOT\<close>, shifts to the left by a constant below 16). A shift by a
  count that the caller supplies is modelled with the case that C++ leaves undefined.
\<close>

type_synonym uint8 = "8 word"
type_synonym uint16 = "16 word"

text \<open>
  \<open>for (uint8_t i = 0; i < n; i++) body(i)\<close> with a bound \<open>n \<le> 256\<close>: the body runs on
  \<open>i = 0, \<dots>, n - 1\<close> in this order.
\<close>

definition for_u8 :: "nat \<Rightarrow> (uint8 \<Rightarrow> 'a \<Rightarrow> 'a) \<Rightarrow> 'a \<Rightarrow> 'a" where
  "for_u8 n body = fold body (map of_nat [0..<n])"

section \<open>The two-wire bus\<close>

text \<open>
  \<open>Wire\<close> is the Arduino bus object, a collaborator outside the repository. The model keeps
  what the driver can observe of it: the calls made so far, oldest first (\<open>sent\<close>), the
  bytes the chip will answer with when asked (\<open>device\<close>), and the receive buffer that
  \<open>requestFrom\<close> fills and \<open>read\<close> empties (\<open>rx\<close>). \<open>Wire.read()\<close> returns an \<open>int\<close>:
  the next byte, or \<open>-1\<close> when the receive buffer is empty.
\<close>

datatype wire_event =
    WireBegin
  | BeginTransmission uint8
  | WriteByte uint8
  | EndTransmission
  | RequestFrom uint8 uint8

record wire =
  sent :: "wire_event list"
  device :: "uint8 list"
  rx :: "uint8 list"

definition Wire_begin :: "wire \<Rightarrow> wire" where
  "Wire_begin w = w\<lparr>sent := sent w @ [WireBegin]\<rparr>"

definition Wire_beginTransmission :: "uint8 \<Rightarrow> wire \<Rightarrow> wire" where
  "Wire_beginTransmission addr w = w\<lparr>sent := sent w @ [BeginTransmission addr]\<rparr>"

definition Wire_write :: "uint8 \<Rightarrow> wire \<Rightarrow> wire" where
  "Wire_write b w = w\<lparr>sent := sent w @ [WriteByte b]\<rparr>"

definition Wire_endTransmission :: "wire \<Rightarrow> wire" where
  "Wire_endTransmission w = w\<lparr>sent := sent w @ [EndTransmission]\<rparr>"

definition Wire_requestFrom :: "uint8 \<Rightarrow> uint8 \<Rightarrow> wire \<Rightarrow> wire" where
  "Wire_requestFrom addr n w =
     w\<lparr>sent := sent w @ [RequestFrom addr n],
       rx := take (unat n) (device w),
       device := drop (unat n) (device w)\<rparr>"

definition Wire_read :: "wire \<Rightarrow> int \<times> wire" where
  "Wire_read w = (case rx w of [] \<Rightarrow> (- 1, w) | b # bs \<Rightarrow> (uint b, w\<lparr>rx := bs\<rparr>))"

section \<open>Command bytes\<close>

text \<open>
  The command bytes are macros of \<open>HT16K33.h\<close>, which is not among the sources. The
  functions below take them as a parameter, so every result holds for any values of them.
\<close>

record ht16k33_cmds =
  HT16K33_CMD_RAM :: uint8
  HT16K33_CMD_KEYS :: uint8
  HT16K33_CMD_INTFLAG :: uint8
  HT16K33_CMD_SYSTEM :: uint8
  HT16K33_CMD_SETUP :: uint8
  HT16K33_CMD_ROWINT :: uint8
  HT16K33_CMD_DIMMING :: uint8
  HT16K33_DISPLAY_ON :: uint8
  HT16K33_BLINK_OFF :: uint8

section \<open>Driver state\<close>

text \<open>
  The members of class \<open>HT16K33\<close> that the code in \<open>HT16K33.cpp\<close> reads and writes, named
  as there without the leading underscore (likewise \<open>flip_uint16\<close> for \<open>_flip_uint16\<close>).
  \<open>buffer\<close> is the array that \<open>init\<close> allocates with \<open>calloc(8, sizeof(uint16_t))\<close>.
\<close>

record ht16k33 =
  i2c_addr :: uint8
  buffer :: "uint16 list"
  reversed :: bool
  vFlipped :: bool
  hFlipped :: bool

subsection \<open>Sprites\<close>

text \<open>
  Modelled from the spec: class \<open>Sprite16\<close> is not among the sources. The spec describes
  a sprite as a fixed-height bitmap, row-addressable, each row a 16-bit word; the source
  calls \<open>height()\<close> and \<open>readRow(row)\<close> on it and compares the height with a
  \<open>uint8_t\<close> counter.
\<close>

record sprite16 =
  height :: uint8
  readRow :: "uint8 \<Rightarrow> uint16"

section \<open>Bit reversal\<close>

text \<open>
  \<open>_flip_uint16\<close>: sixteen rounds of \<open>out <<= 1; out |= in & 1; in >>= 1\<close>. The counter is
  not used in the body, so the loop is a recursion on the number of rounds left.
\<close>

fun flip_loop :: "nat \<Rightarrow> uint16 \<times> uint16 \<Rightarrow> uint16 \<times> uint16" where
  "flip_loop 0 st = st"
| "flip_loop (Suc n) (out, inp) = flip_loop n (push_bit 1 out OR (inp AND 1), drop_bit 1 inp)"

definition flip_uint16 :: "uint16 \<Rightarrow> uint16" where
  "flip_uint16 inp = fst (flip_loop 16 (0, inp))"

section \<open>Device protocol\<close>

definition wakeUp :: "ht16k33_cmds \<Rightarrow> ht16k33 \<Rightarrow> wire \<Rightarrow> wire" where
  "wakeUp c s w =
     Wire_endTransmission
       (Wire_write (HT16K33_CMD_SYSTEM c OR 0x01)
         (Wire_beginTransmission (i2c_addr s) w))"

definition sleep :: "ht16k33_cmds \<Rightarrow> ht16k33 \<Rightarrow> wire \<Rightarrow> wire" where
  "sleep c s w =
     Wire_endTransmission
       (Wire_write (HT16K33_CMD_SYSTEM c AND NOT 1)
         (Wire_beginTransmission (i2c_addr s) w))"

definition setBrightness :: "ht16k33_cmds \<Rightarrow> ht16k33 \<Rightarrow> uint8 \<Rightarrow> wire \<Rightarrow> wire" where
  "setBrightness c s brightness w =
     (let brightness = brightness AND 0x0F
      in Wire_endTransmission
           (Wire_write (HT16K33_CMD_DIMMING c OR brightness)
             (Wire_beginTransmission (i2c_addr s) w)))"

definition setBlink :: "ht16k33_cmds \<Rightarrow> ht16k33 \<Rightarrow> uint8 \<Rightarrow> wire \<Rightarrow> wire" where
  "setBlink c s blink w =
     Wire_endTransmission
       (Wire_write (HT16K33_CMD_SETUP c OR HT16K33_DISPLAY_ON c OR blink)
         (Wire_beginTransmission (i2c_addr s) w))"

text \<open>
  \<open>setRowIntPin\<close> writes \<open>HT16K33_CMD_ROWINT | (act & row_int) << 1 | row_int\<close>: the shift
  binds tighter than \<open>|\<close>, and the two \<open>bool\<close>s are promoted to \<open>0\<close> or \<open>1\<close>.
\<close>

definition setRowIntPin :: "ht16k33_cmds \<Rightarrow> ht16k33 \<Rightarrow> bool \<Rightarrow> bool \<Rightarrow> wire \<Rightarrow> wire" where
  "setRowIntPin c s row_int act w =
     Wire_endTransmission
       (Wire_write
          (HT16K33_CMD_ROWINT c OR push_bit 1 (of_bool act AND of_bool row_int) OR of_bool row_int)
          (Wire_beginTransmission (i2c_addr s) w))"

text \<open>
  \<open>getKeyData\<close>: the body of the loop reads two bytes; the first is stored in a
  \<open>uint16_t\<close>, the second is shifted as an \<open>int\<close>, and the assignment to
  \<open>_key_buffer[row]\<close> truncates to 16 bits. The caller's array is a list; an index beyond
  its end is outside the array in the source and leaves the list as it is here.
\<close>

definition getKeyData_row :: "uint8 \<Rightarrow> uint16 list \<times> wire \<Rightarrow> uint16 list \<times> wire" where
  "getKeyData_row row = (\<lambda>(key_buffer, w).
     let (b0, w1) = Wire_read w;
         lsb = (word_of_int b0 :: uint16);
         (b1, w2) = Wire_read w1
     in (key_buffer[unat row := word_of_int (push_bit 8 b1 OR uint lsb)], w2))"

definition getKeyData ::
  "ht16k33_cmds \<Rightarrow> ht16k33 \<Rightarrow> uint16 list \<Rightarrow> wire \<Rightarrow> uint16 list \<times> wire" where
  "getKeyData c s key_buffer w =
     (let w1 = Wire_endTransmission
                 (Wire_write (HT16K33_CMD_KEYS c)
                   (Wire_beginTransmission (i2c_addr s) w));
          w2 = Wire_requestFrom (i2c_addr s) 6 w1
      in for_u8 2 getKeyData_row (key_buffer, w2))"

definition getKeyInterrupt :: "ht16k33_cmds \<Rightarrow> ht16k33 \<Rightarrow> wire \<Rightarrow> bool \<times> wire" where
  "getKeyInterrupt c s w =
     (let w1 = Wire_endTransmission
                 (Wire_write (HT16K33_CMD_INTFLAG c)
                   (Wire_beginTransmission (i2c_addr s) w));
          w2 = Wire_requestFrom (i2c_addr s) 1 w1;
          (b, w3) = Wire_read w2;
          intflags = (word_of_int b :: uint8)
      in (intflags > 0, w3))"

section \<open>Orientation\<close>

definition resetOrientation :: "ht16k33 \<Rightarrow> ht16k33" where
  "resetOrientation s = s\<lparr>reversed := False, vFlipped := False, hFlipped := False\<rparr>"

definition reverse :: "ht16k33 \<Rightarrow> ht16k33" where
  "reverse s = s\<lparr>reversed := \<not> reversed s\<rparr>"

definition flipVertical :: "ht16k33 \<Rightarrow> ht16k33" where
  "flipVertical s = s\<lparr>vFlipped := \<not> vFlipped s\<rparr>"

definition flipHorizontal :: "ht16k33 \<Rightarrow> ht16k33" where
  "flipHorizontal s = s\<lparr>hFlipped := \<not> hFlipped s\<rparr>"

section \<open>Pixel buffer\<close>

definition clear :: "ht16k33 \<Rightarrow> ht16k33" where
  "clear = for_u8 8 (\<lambda>i s. s\<lparr>buffer := (buffer s)[unat i := 0]\<rparr>)"

text \<open>
  \<open>setPixel\<close>: \<open>1 << col\<close> is an \<open>int\<close>; the compound assignment truncates it to the
  16 bits of the row word, where it is bit \<open>col\<close> alone for every \<open>col\<close> in \<open>0..15\<close>.
\<close>

definition setPixel :: "ht16k33 \<Rightarrow> uint8 \<Rightarrow> uint8 \<Rightarrow> uint8 \<Rightarrow> ht16k33" where
  "setPixel s col row val =
     (let col = col AND 0x0F;
          row = row AND 0x07;
          val = val AND 0x01
      in if val = 1
         then s\<lparr>buffer := (buffer s)[unat row :=
                  buffer s ! unat row OR push_bit (unat col) 1]\<rparr>
         else s\<lparr>buffer := (buffer s)[unat row :=
                  buffer s ! unat row AND NOT (push_bit (unat col) 1)]\<rparr>)"

definition setRow :: "ht16k33 \<Rightarrow> uint8 \<Rightarrow> uint16 \<Rightarrow> ht16k33" where
  "setRow s row v = (let row = row AND 0x07 in s\<lparr>buffer := (buffer s)[unat row := v]\<rparr>)"

definition setColumn :: "ht16k33 \<Rightarrow> uint8 \<Rightarrow> uint8 \<Rightarrow> ht16k33" where
  "setColumn s col v =
     for_u8 8 (\<lambda>row s.
       setPixel s col row (of_bool ((uint v AND push_bit (unat row) 1) > 0))) s"

text \<open>
  A shift to the left of a promoted operand: \<open>x << n\<close> is computed at the width of
  \<open>int\<close>, and C++ leaves it undefined when the count \<open>n\<close> is not below that width. The
  width is a parameter (16 on the AVR boards, 32 on the ARM ones; the language guarantees
  at least 16). \<open>None\<close> is the undefined shift; a defined one returns the product
  \<open>x * 2 ^ n\<close>, of which the caller keeps the low 16 bits, the same at every width
  (where the product overflows a signed 32-bit \<open>int\<close> it wraps, as C++20 says and the
  compilers for these boards do).
\<close>

definition shift_left_int :: "nat \<Rightarrow> int \<Rightarrow> uint8 \<Rightarrow> int option" where
  "shift_left_int int_width x n =
     (if unat n < int_width then Some (push_bit (unat n) x) else None)"

text \<open>
  \<open>drawSprite16\<close>: \<open>row + rowOffset\<close> is an \<open>int\<close> sum, so it does not wrap at 256 before the
  mask. \<open>colOffset\<close> is not masked: \<open>sprite.readRow(row) << colOffset\<close> shifts the promoted
  row by the \<open>uint8_t\<close> as it comes, \<open>& 0xFFFF\<close> keeps the low 16 bits, and \<open>|=\<close> stores
  them. An undefined shift in any round leaves the whole call without a result.
\<close>

definition drawSprite16_row ::
  "nat \<Rightarrow> sprite16 \<Rightarrow> uint8 \<Rightarrow> uint8 \<Rightarrow> uint8 \<Rightarrow> ht16k33 \<Rightarrow> ht16k33 option" where
  "drawSprite16_row int_width sprite colOffset rowOffset row s =
     (case shift_left_int int_width (uint (readRow sprite row)) colOffset of
        None \<Rightarrow> None
      | Some v \<Rightarrow>
          let i = nat ((uint row + uint rowOffset) AND 0x07)
          in Some (s\<lparr>buffer := (buffer s)[i := buffer s ! i OR word_of_int (v AND 0xFFFF)]\<rparr>))"

definition drawSprite16 ::
  "nat \<Rightarrow> ht16k33 \<Rightarrow> sprite16 \<Rightarrow> uint8 \<Rightarrow> uint8 \<Rightarrow> ht16k33 option" where
  "drawSprite16 int_width s sprite colOffset rowOffset =
     for_u8 (unat (height sprite))
       (\<lambda>row r. case r of
                   None \<Rightarrow> None
                 | Some s' \<Rightarrow> drawSprite16_row int_width sprite colOffset rowOffset row s')
       (Some s)"

definition drawSprite16_noOffset :: "nat \<Rightarrow> ht16k33 \<Rightarrow> sprite16 \<Rightarrow> ht16k33 option" where
  "drawSprite16_noOffset int_width s sprite = drawSprite16 int_width s sprite 0 0"

section \<open>Serialization\<close>

text \<open>
  \<open>writeRow\<close>: \<open>row = 7 - row\<close> is assigned back to a \<open>uint8_t\<close>; \<open>Wire.write\<close> takes the
  low eight bits of its argument.
\<close>

definition writeRow :: "ht16k33 \<Rightarrow> uint8 \<Rightarrow> wire \<Rightarrow> wire" where
  "writeRow s row w =
     (let row = (if vFlipped s then 7 - row else row);
          out = buffer s ! unat row;
          out = (if hFlipped s then flip_uint16 out else out)
      in if reversed s
         then Wire_write (ucast (out AND 0xFF)) (Wire_write (ucast (drop_bit 8 out)) w)
         else Wire_write (ucast (drop_bit 8 out)) (Wire_write (ucast (out AND 0xFF)) w))"

text \<open>
  \<open>HT16K33::write\<close> is \<open>write_matrix\<close> here: \<open>write\<close> is a reserved word of the proof language.
\<close>

definition write_matrix :: "ht16k33_cmds \<Rightarrow> ht16k33 \<Rightarrow> wire \<Rightarrow> wire" where
  "write_matrix c s w =
     Wire_endTransmission
       (for_u8 8 (writeRow s)
         (Wire_write (HT16K33_CMD_RAM c)
           (Wire_beginTransmission (i2c_addr s) w)))"

section \<open>Initialisation\<close>

definition init :: "ht16k33_cmds \<Rightarrow> ht16k33 \<Rightarrow> uint8 \<Rightarrow> wire \<Rightarrow> ht16k33 \<times> wire" where
  "init c s addr w =
     (let s1 = resetOrientation s;
          s2 = s1\<lparr>i2c_addr := addr\<rparr>;
          s3 = s2\<lparr>buffer := replicate 8 0\<rparr>;
          w1 = Wire_begin w;
          w2 = wakeUp c s3 w1;
          w3 = setBlink c s3 (HT16K33_BLINK_OFF c) w2;
          w4 = setBrightness c s3 15 w3;
          w5 = write_matrix c s3 w4
      in (s3, w5))"

section \<open>Example values\<close>

text \<open>
  A driver state with the row word of the spec's example (row 3 is \<open>0b101\<close>) and every
  orientation flag set, a bus on which the chip has six bytes to deliver, a sprite of
  three rows, and the command bytes of the chip's data sheet. They serve as concrete
  inputs below.
\<close>

definition example_state :: ht16k33 where
  "example_state =
     \<lparr>i2c_addr = 0x70, buffer = [0, 0, 0, 5, 0, 0, 0, 0],
      reversed = True, vFlipped = True, hFlipped = True\<rparr>"

definition example_wire :: wire where
  "example_wire = \<lparr>sent = [], device = [1, 2, 3, 4, 5, 6], rx = []\<rparr>"

definition example_cmds :: ht16k33_cmds where
  "example_cmds =
     \<lparr>HT16K33_CMD_RAM = 0x00, HT16K33_CMD_KEYS = 0x40, HT16K33_CMD_INTFLAG = 0x60,
      HT16K33_CMD_SYSTEM = 0x20, HT16K33_CMD_SETUP = 0x80, HT16K33_CMD_ROWINT = 0xA0,
      HT16K33_CMD_DIMMING = 0xE0, HT16K33_DISPLAY_ON = 0x01, HT16K33_BLINK_OFF = 0x00\<rparr>"

definition example_sprite :: sprite16 where
  "example_sprite = \<lparr>height = 3, readRow = (\<lambda>r. ucast r + 0x8001)\<rparr>"

section \<open>Bit reversal is an involution\<close>

lemma flip_step_bit:
  "bit (push_bit 1 out OR (inp AND 1) :: uint16) m \<longleftrightarrow>
     m < 16 \<and> (if m = 0 then bit inp 0 else bit out (m - 1))"
  unfolding bit_or_iff bit_and_iff bit_push_bit_iff bit_1_iff
  by (auto dest: bit_imp_le_length)

lemma flip_loop_bit:
  "bit (fst (flip_loop k (out, inp))) n \<longleftrightarrow>
     n < 16 \<and> (if n < k then bit inp (k - Suc n) else bit out (n - k))"
proof (induction k arbitrary: out inp n)
  case 0
  then show ?case by (auto dest: bit_imp_le_length)
next
  case (Suc k)
  have "bit (fst (flip_loop (Suc k) (out, inp))) n \<longleftrightarrow>
      n < 16 \<and> (if n < k then bit (drop_bit 1 inp) (k - Suc n)
                 else bit (push_bit 1 out OR (inp AND 1)) (n - k))"
    by (simp add: Suc del: push_bit_of_Suc_0 push_bit_of_1 drop_bit_of_Suc_0 drop_bit_of_1)
  also have "\<dots> \<longleftrightarrow>
      n < 16 \<and> (if n < Suc k then bit inp (Suc k - Suc n) else bit out (n - Suc k))"
    unfolding flip_step_bit bit_drop_bit_eq
    by (auto simp: Suc_diff_Suc less_Suc_eq)
  finally show ?case .
qed

lemma bit_flip_uint16: "bit (flip_uint16 x) n \<longleftrightarrow> n < 16 \<and> bit x (15 - n)"
  by (auto simp: flip_uint16_def flip_loop_bit)

lemma flip_uint16_word_reverse: "flip_uint16 x = word_reverse x"
  by (rule bit_word_eqI) (auto simp: bit_flip_uint16 bit_word_reverse_iff)

text \<open>
  C4: the 16-bit bit reversal is its own inverse: reversing any 16-bit value twice gives
  the value back.
\<close>

theorem flip_uint16_self_inverse: "flip_uint16 (flip_uint16 x) = x"
  by (rule bit_word_eqI) (auto simp: bit_flip_uint16)


section \<open>Loops and the bus, unfolded\<close>

lemma for_u8_2: "for_u8 2 body x = body 1 (body 0 x)"
  by (simp add: for_u8_def upt_rec)

lemma for_u8_8:
  "for_u8 8 body x = body 7 (body 6 (body 5 (body 4 (body 3 (body 2 (body 1 (body 0 x)))))))"
  by (simp add: for_u8_def upt_rec)

lemmas Wire_defs = Wire_begin_def Wire_beginTransmission_def Wire_write_def
  Wire_endTransmission_def Wire_requestFrom_def Wire_read_def

lemma length_8_D:
  "length xs = 8 \<Longrightarrow> \<exists>a b c d e f g h. xs = [a, b, c, d, e, f, g, h]"
  by (simp add: eval_nat_numeral length_Suc_conv) blast

lemma list_update_Cons_numeral:
  "(x # xs)[numeral k := y] = x # xs[pred_numeral k := y]"
  by (simp add: numeral_eq_Suc)

lemma replicate_numeral:
  "replicate (numeral k) x = x # replicate (pred_numeral k) x"
  by (simp add: numeral_eq_Suc)

section \<open>Masks\<close>

lemma unat_and_7: "unat (row AND 0x07 :: uint8) = unat row mod 8"
proof -
  have eq: "(0x07 :: uint8) = mask 3"
    by (simp add: mask_eq_exp_minus_1)
  show ?thesis
    unfolding eq take_bit_eq_mask [symmetric] unsigned_take_bit_eq
    by (simp add: take_bit_eq_mod)
qed

lemma unat_and_15: "unat (col AND 0x0F :: uint8) = unat col mod 16"
proof -
  have eq: "(0x0F :: uint8) = mask 4"
    by (simp add: mask_eq_exp_minus_1)
  show ?thesis
    unfolding eq take_bit_eq_mask [symmetric] unsigned_take_bit_eq
    by (simp add: take_bit_eq_mod)
qed

lemma low_byte: "(ucast (x AND 0xFF :: uint16) :: uint8) = ucast x"
proof -
  have eq: "(0xFF :: uint16) = mask 8"
    by (simp add: mask_eq_exp_minus_1)
  show ?thesis
    unfolding eq by (rule bit_word_eqI) (auto simp: bit_simps)
qed

lemma row_index:
  "nat ((uint (row :: uint8) + uint (ro :: uint8)) AND 0x07) = (unat row + unat ro) mod 8"
proof -
  have eq: "(0x07 :: int) = mask 3"
    by (simp add: mask_eq_exp_minus_1)
  have "(uint row + uint ro) AND 0x07 = (uint row + uint ro) mod 8"
    unfolding eq by (simp add: take_bit_eq_mod flip: take_bit_eq_mask)
  then show ?thesis
    by (simp add: nat_mod_distrib nat_add_distrib)
qed

section \<open>The buffer keeps its eight rows\<close>

text \<open>
  \<open>init\<close> allocates eight zeroed row words, and no operation of the driver changes the
  number of rows: every index into the buffer is masked to \<open>0..7\<close> or runs over \<open>0..7\<close>.
  The results below about the buffer are stated for a buffer of eight rows.
\<close>

lemma init_buffer: "buffer (fst (init c s addr w)) = replicate 8 0"
  by (simp add: init_def Let_def)

lemma init_flags:
  "\<not> reversed (fst (init c s addr w)) \<and> \<not> vFlipped (fst (init c s addr w))
   \<and> \<not> hFlipped (fst (init c s addr w))"
  by (simp add: init_def Let_def resetOrientation_def)

lemma length_setPixel: "length (buffer (setPixel s col row val)) = length (buffer s)"
  by (simp add: setPixel_def Let_def)

lemma length_setRow: "length (buffer (setRow s row v)) = length (buffer s)"
  by (simp add: setRow_def Let_def)

lemma length_setColumn: "length (buffer (setColumn s col v)) = length (buffer s)"
  unfolding setColumn_def for_u8_8 by (simp only: length_setPixel)

lemma length_clear: "length (buffer (clear s)) = length (buffer s)"
  unfolding clear_def for_u8_8 by simp

section \<open>Row serialization\<close>

lemma flip_uint16_0: "flip_uint16 0 = 0"
  by (rule bit_word_eqI) (simp add: bit_flip_uint16)

lemma flip_uint16_5: "flip_uint16 5 = 0xA000"
  by code_simp

text \<open>
  C1: \<open>writeRow\<close> applies three stages in this order: with \<open>vFlipped\<close> the buffer row is
  \<open>7 - row\<close>; with \<open>hFlipped\<close> the 16-bit row value is bit-reversed; the low byte is sent
  before the high byte, or after it when \<open>reversed\<close> is set. With buffer row 3 equal to
  \<open>0x0005\<close> the bytes for physical row 3 are \<open>0x05, 0x00\<close> with all flags false,
  \<open>0x00, 0x05\<close> with \<open>reversed\<close> alone, and \<open>0x00, 0xA0\<close> with \<open>hFlipped\<close> alone.
\<close>

theorem writeRow_three_stages:
  "writeRow s row w =
     (let r = (if vFlipped s then 7 - row else row);
          v = buffer s ! unat r;
          v' = (if hFlipped s then word_reverse v else v);
          lo = ucast v';
          hi = ucast (drop_bit 8 v')
      in w\<lparr>sent := sent w @ (if reversed s then [WriteByte hi, WriteByte lo]
                               else [WriteByte lo, WriteByte hi])\<rparr>)
   \<and> writeRow \<lparr>i2c_addr = a, buffer = [b0, b1, b2, 0x0005, b4, b5, b6, b7],
                reversed = False, vFlipped = False, hFlipped = False\<rparr> 3 w
       = w\<lparr>sent := sent w @ [WriteByte 0x05, WriteByte 0x00]\<rparr>
   \<and> writeRow \<lparr>i2c_addr = a, buffer = [b0, b1, b2, 0x0005, b4, b5, b6, b7],
                reversed = True, vFlipped = False, hFlipped = False\<rparr> 3 w
       = w\<lparr>sent := sent w @ [WriteByte 0x00, WriteByte 0x05]\<rparr>
   \<and> writeRow \<lparr>i2c_addr = a, buffer = [b0, b1, b2, 0x0005, b4, b5, b6, b7],
                reversed = False, vFlipped = False, hFlipped = True\<rparr> 3 w
       = w\<lparr>sent := sent w @ [WriteByte 0x00, WriteByte 0xA0]\<rparr>"
proof (intro conjI)
  show "writeRow s row w =
     (let r = (if vFlipped s then 7 - row else row);
          v = buffer s ! unat r;
          v' = (if hFlipped s then word_reverse v else v);
          lo = ucast v';
          hi = ucast (drop_bit 8 v')
      in w\<lparr>sent := sent w @ (if reversed s then [WriteByte hi, WriteByte lo]
                               else [WriteByte lo, WriteByte hi])\<rparr>)"
    by (simp add: writeRow_def Let_def Wire_write_def flip_uint16_word_reverse low_byte)
qed (simp_all add: writeRow_def Let_def Wire_write_def flip_uint16_5)

section \<open>Setting and clearing a pixel\<close>

lemma setPixel_1:
  "setPixel s col row 1 =
     s\<lparr>buffer := (buffer s)[unat row mod 8 :=
        buffer s ! (unat row mod 8) OR 2 ^ (unat col mod 16)]\<rparr>"
  by (simp add: setPixel_def Let_def unat_and_7 unat_and_15)

lemma setPixel_0:
  "setPixel s col row 0 =
     s\<lparr>buffer := (buffer s)[unat row mod 8 :=
        buffer s ! (unat row mod 8) AND NOT (2 ^ (unat col mod 16))]\<rparr>"
  by (simp add: setPixel_def Let_def unat_and_7 unat_and_15)

lemma or_and_not_bit:
  "(x OR 2 ^ c) AND NOT (2 ^ c) = x AND NOT (2 ^ c :: uint16)"
  by (rule bit_word_eqI) (auto simp: bit_simps)

lemma bit_and_not_bit:
  "bit (x AND NOT (2 ^ c :: uint16)) n \<longleftrightarrow> bit x n \<and> n \<noteq> c"
  by (auto simp: bit_simps dest: bit_imp_le_length)

lemma and_not_bit_id:
  "\<not> bit x c \<Longrightarrow> x AND NOT (2 ^ c :: uint16) = x"
  by (rule bit_word_eqI) (auto simp: bit_and_not_bit)

lemma set_then_clear:
  "length (buffer s) = 8 \<Longrightarrow>
   setPixel (setPixel s col row 1) col row 0 =
     s\<lparr>buffer := (buffer s)[unat row mod 8 :=
        buffer s ! (unat row mod 8) AND NOT (2 ^ (unat col mod 16))]\<rparr>"
  by (simp add: setPixel_1 setPixel_0 or_and_not_bit)

text \<open>
  C2, as the spec states it, fails: \<open>setPixel(col, row, 1)\<close> and then
  \<open>setPixel(col, row, 0)\<close> does not restore a bit that was 1 before the two calls. In
  the example state bit 0 of row 3 is set before the calls and clear after them.
\<close>

theorem setPixel_set_clear_counterexample:
  "bit (buffer example_state ! (unat (3 :: uint8) mod 8)) (unat (0 :: uint8) mod 16)
   \<and> \<not> bit (buffer (setPixel (setPixel example_state 0 3 1) 0 3 0) ! (unat (3 :: uint8) mod 8))
            (unat (0 :: uint8) mod 16)"
  by (simp add: example_state_def setPixel_def)

text \<open>
  C2, amended: for every \<open>col\<close>, \<open>row\<close> and starting buffer, \<open>setPixel(col, row, 1)\<close>
  followed by \<open>setPixel(col, row, 0)\<close> leaves the bit at position \<open>col mod 16\<close> of row
  word \<open>row mod 8\<close> clear; when that bit was clear before the two calls, the calls restore
  it, and the whole driver state with it.
\<close>

theorem setPixel_set_then_clear:
  "length (buffer s) = 8 \<Longrightarrow>
     \<not> bit (buffer (setPixel (setPixel s col row 1) col row 0) ! (unat row mod 8))
          (unat col mod 16)
   \<and> (\<not> bit (buffer s ! (unat row mod 8)) (unat col mod 16) \<longrightarrow>
        setPixel (setPixel s col row 1) col row 0 = s)"
  by (simp add: set_then_clear bit_and_not_bit and_not_bit_id)

theorem setPixel_set_then_clear_witness:
  "length (buffer example_state) = 8
   \<and> \<not> bit (buffer example_state ! 3) 1
   \<and> \<not> bit (buffer (setPixel (setPixel example_state 17 11 1) 17 11 0) ! 3) 1
   \<and> setPixel (setPixel example_state 17 11 1) 17 11 0 = example_state"
proof -
  have len: "length (buffer example_state) = 8"
    by (simp add: example_state_def)
  have clr: "\<not> bit (buffer example_state ! 3) 1"
    by (simp add: example_state_def)
  from setPixel_set_then_clear [OF len, where col = 17 and row = 11] len clr show ?thesis
    by simp
qed

section \<open>Reading the key data\<close>

lemma key_word:
  "(word_of_int (push_bit 8 (uint (b1 :: uint8)) OR uint (ucast (b0 :: uint8) :: uint16)) :: uint16)
     = push_bit 8 (ucast b1) OR ucast b0"
  by (rule bit_word_eqI) (auto simp: bit_simps)

text \<open>
  C3: \<open>getKeyData\<close> first writes the key-data command byte in a transmission of its own,
  then requests 6 bytes from the device, and decodes the first four of them into 2 row
  words, not 3: element 0 has the first byte read as its low byte and the second as its
  high byte, element 1 the third and the fourth. The last two bytes stay unread in the
  receive buffer, and the rest of the caller's array is as it was.
\<close>

theorem getKeyData_decodes_two_rows:
  "getKeyData c s (k0 # k1 # ks)
       \<lparr>sent = l, device = b0 # b1 # b2 # b3 # b4 # b5 # bs, rx = old\<rparr>
   = ((push_bit 8 (ucast b1) OR ucast b0) # (push_bit 8 (ucast b3) OR ucast b2) # ks,
      \<lparr>sent = l @ [BeginTransmission (i2c_addr s), WriteByte (HT16K33_CMD_KEYS c),
                    EndTransmission, RequestFrom (i2c_addr s) 6],
       device = bs, rx = [b4, b5]\<rparr>)"
  by (simp add: getKeyData_def for_u8_2 getKeyData_row_def Let_def Wire_defs key_word
      split: prod.splits)

text \<open>
  C10: \<open>getKeyData\<close> writes elements 0 and 1 of the caller's array only: element 2 of a
  3-element array is after the call what it was before, for every content of the array
  and whatever the bus delivers; in general all elements from index 2 on are kept, and so
  is the length.
\<close>

theorem getKeyData_keeps_third_element:
  "fst (getKeyData c s [k0, k1, k2] w) ! 2 = k2
   \<and> drop 2 (fst (getKeyData c s key_buffer w)) = drop 2 key_buffer
   \<and> length (fst (getKeyData c s key_buffer w)) = length key_buffer"
  by (simp add: getKeyData_def for_u8_2 getKeyData_row_def Let_def split: prod.splits)

section \<open>Orientation flags\<close>

text \<open>
  C5: two calls of \<open>flipHorizontal\<close> give back the driver state, so \<open>write\<close> serializes
  the same byte stream as without them, for every buffer and every setting of the
  other flags; one call does change the flag.
\<close>

theorem flipHorizontal_twice_write:
  "write_matrix c (flipHorizontal (flipHorizontal s)) w = write_matrix c s w
   \<and> flipHorizontal (flipHorizontal s) = s
   \<and> hFlipped (flipHorizontal s) = (\<not> hFlipped s)"
  by (simp add: flipHorizontal_def)

text \<open>
  C9: \<open>reverse\<close>, \<open>flipVertical\<close>, \<open>flipHorizontal\<close> and \<open>resetOrientation\<close> leave the
  pixel buffer (and the bus address) as they are; the three toggles change their own
  flag only, and the reset clears all three flags.
\<close>

theorem orientation_ops_keep_buffer:
  "buffer (reverse s) = buffer s \<and> buffer (flipVertical s) = buffer s
   \<and> buffer (flipHorizontal s) = buffer s \<and> buffer (resetOrientation s) = buffer s
   \<and> i2c_addr (reverse s) = i2c_addr s \<and> i2c_addr (flipVertical s) = i2c_addr s
   \<and> i2c_addr (flipHorizontal s) = i2c_addr s \<and> i2c_addr (resetOrientation s) = i2c_addr s
   \<and> reverse s = s\<lparr>reversed := \<not> reversed s\<rparr>
   \<and> flipVertical s = s\<lparr>vFlipped := \<not> vFlipped s\<rparr>
   \<and> flipHorizontal s = s\<lparr>hFlipped := \<not> hFlipped s\<rparr>
   \<and> resetOrientation s = s\<lparr>reversed := False, vFlipped := False, hFlipped := False\<rparr>"
  by (simp add: reverse_def flipVertical_def flipHorizontal_def resetOrientation_def)

section \<open>Clearing and writing\<close>

lemma clear_buffer: "length (buffer s) = 8 \<Longrightarrow> clear s = s\<lparr>buffer := replicate 8 0\<rparr>"
  unfolding clear_def for_u8_8
  by (drule length_8_D) (auto simp: list_update_Cons_numeral replicate_numeral)

text \<open>
  C6: after \<open>clear\<close>, \<open>write\<close> sends the display-RAM command byte and then 16 data bytes
  that are all zero (two for each of the 8 rows), whatever the three orientation flags
  are.
\<close>

theorem clear_then_write_zero_bytes:
  "length (buffer s) = 8 \<Longrightarrow>
     sent (write_matrix c (clear s) w) =
       sent w @ [BeginTransmission (i2c_addr s), WriteByte (HT16K33_CMD_RAM c)]
              @ replicate 16 (WriteByte 0) @ [EndTransmission]"
  unfolding write_matrix_def for_u8_8
  by (simp add: clear_buffer writeRow_def Let_def Wire_defs flip_uint16_0 replicate_numeral)

theorem clear_then_write_zero_bytes_witness:
  "length (buffer example_state) = 8
   \<and> sent (write_matrix example_cmds (clear example_state) example_wire) =
       [BeginTransmission 0x70, WriteByte 0x00] @ replicate 16 (WriteByte 0) @ [EndTransmission]"
proof -
  have len: "length (buffer example_state) = 8"
    by (simp add: example_state_def)
  from clear_then_write_zero_bytes [OF len, of example_cmds example_wire] len show ?thesis
    by (simp add: example_state_def example_wire_def example_cmds_def)
qed

section \<open>The row/interrupt pin\<close>

text \<open>
  C7: \<open>setRowIntPin\<close> sends one command byte, \<open>ROWINT\<close> with \<open>act AND row_int\<close> in bit 1
  and \<open>row_int\<close> in bit 0: \<open>setRowIntPin(true, true)\<close> sends \<open>ROWINT | 0b11\<close>,
  \<open>setRowIntPin(false, true)\<close> sends \<open>ROWINT | 0b00\<close>, and without \<open>row_int\<close> the value
  of \<open>act\<close> makes no difference.
\<close>

theorem setRowIntPin_encoding:
  "setRowIntPin c s True True w =
     w\<lparr>sent := sent w @ [BeginTransmission (i2c_addr s),
                          WriteByte (HT16K33_CMD_ROWINT c OR 0b11), EndTransmission]\<rparr>
   \<and> setRowIntPin c s False True w =
     w\<lparr>sent := sent w @ [BeginTransmission (i2c_addr s),
                          WriteByte (HT16K33_CMD_ROWINT c OR 0b00), EndTransmission]\<rparr>
   \<and> setRowIntPin c s False act w = setRowIntPin c s False act' w
   \<and> setRowIntPin c s row_int act w =
     w\<lparr>sent := sent w @ [BeginTransmission (i2c_addr s),
                          WriteByte (HT16K33_CMD_ROWINT c
                                     OR push_bit 1 (of_bool (act \<and> row_int)) OR of_bool row_int),
                          EndTransmission]\<rparr>"
  by (simp add: setRowIntPin_def Wire_defs)

section \<open>Drawing a sprite\<close>

lemma masked_shift_bit:
  "bit (word_of_int (k AND 0xFFFF) :: uint16) n \<longleftrightarrow> bit (k AND (0xFFFF :: int)) n"
proof -
  have eq: "(0xFFFF :: int) = mask 16"
    by (simp add: mask_eq_exp_minus_1)
  show ?thesis
    unfolding eq by (auto simp: bit_word_of_int_iff bit_and_iff bit_mask_iff)
qed

lemma bit_and_ffff_int: "bit (k AND (0xFFFF :: int)) n \<longleftrightarrow> n < 16 \<and> bit k n"
proof -
  have eq: "(0xFFFF :: int) = mask 16"
    by (simp add: mask_eq_exp_minus_1)
  show ?thesis
    unfolding eq by (auto simp: bit_and_iff bit_mask_iff)
qed

lemma and_ffff: "x AND 0xFFFF = (x :: uint16)"
proof -
  have eq: "(0xFFFF :: uint16) = - 1"
    by simp
  show ?thesis
    unfolding eq by simp
qed

lemma drawSprite16_row_Some:
  "unat co < iw \<Longrightarrow>
   drawSprite16_row iw sp co ro row s =
     Some (s\<lparr>buffer := (buffer s)[(unat row + unat ro) mod 8 :=
        buffer s ! ((unat row + unat ro) mod 8)
          OR word_of_int (push_bit (unat co) (uint (readRow sp row)) AND 0xFFFF)]\<rparr>)"
  by (simp add: drawSprite16_row_def shift_left_int_def Let_def row_index)

lemma drawSprite16_row_None:
  "\<not> unat co < iw \<Longrightarrow> drawSprite16_row iw sp co ro row s = None"
  by (simp add: drawSprite16_row_def shift_left_int_def)

lemma draw_fold:
  assumes co: "unat co < iw"
  shows "length (buffer s) = 8 \<Longrightarrow>
    \<exists>s'. fold (\<lambda>row r. case r of None \<Rightarrow> None
                          | Some s' \<Rightarrow> drawSprite16_row iw sp co ro row s') rs (Some s) = Some s'
       \<and> length (buffer s') = 8
       \<and> (\<forall>i<8. \<forall>n. bit (buffer s' ! i) n \<longleftrightarrow>
             bit (buffer s ! i) n \<or>
             (\<exists>r \<in> set rs. (unat r + unat ro) mod 8 = i \<and>
                bit (push_bit (unat co) (uint (readRow sp r)) AND (0xFFFF :: int)) n))"
proof (induction rs arbitrary: s)
  case Nil
  then show ?case by simp
next
  case (Cons r rs)
  let ?j = "(unat r + unat ro) mod 8"
  let ?v = "word_of_int (push_bit (unat co) (uint (readRow sp r)) AND 0xFFFF) :: uint16"
  let ?s1 = "s\<lparr>buffer := (buffer s)[?j := buffer s ! ?j OR ?v]\<rparr>"
  have step: "drawSprite16_row iw sp co ro r s = Some ?s1"
    using co by (rule drawSprite16_row_Some)
  have len1: "length (buffer ?s1) = 8"
    using Cons.prems by simp
  have bit1: "bit (buffer ?s1 ! i) n \<longleftrightarrow>
      bit (buffer s ! i) n \<or>
      (?j = i \<and> bit (push_bit (unat co) (uint (readRow sp r)) AND (0xFFFF :: int)) n)"
    if "i < 8" for i n
    using that Cons.prems by (auto simp: nth_list_update bit_or_iff masked_shift_bit)
  from Cons.IH [OF len1] obtain s' where
    run: "fold (\<lambda>row r. case r of None \<Rightarrow> None
                          | Some s' \<Rightarrow> drawSprite16_row iw sp co ro row s') rs (Some ?s1) = Some s'"
    and len': "length (buffer s') = 8"
    and bit': "\<forall>i<8. \<forall>n. bit (buffer s' ! i) n \<longleftrightarrow>
             bit (buffer ?s1 ! i) n \<or>
             (\<exists>r \<in> set rs. (unat r + unat ro) mod 8 = i \<and>
                bit (push_bit (unat co) (uint (readRow sp r)) AND (0xFFFF :: int)) n)"
    by blast
  have "fold (\<lambda>row r. case r of None \<Rightarrow> None
                          | Some s' \<Rightarrow> drawSprite16_row iw sp co ro row s') (r # rs) (Some s) = Some s'"
    by (simp add: step run)
  moreover have "\<forall>i<8. \<forall>n. bit (buffer s' ! i) n \<longleftrightarrow>
             bit (buffer s ! i) n \<or>
             (\<exists>r \<in> set (r # rs). (unat r + unat ro) mod 8 = i \<and>
                bit (push_bit (unat co) (uint (readRow sp r)) AND (0xFFFF :: int)) n)"
    using bit' bit1 by auto
  ultimately show ?case
    using len' by blast
qed

lemma draw_fold_undefined:
  "\<not> unat co < iw \<Longrightarrow>
   fold (\<lambda>row r. case r of None \<Rightarrow> None
                   | Some s' \<Rightarrow> drawSprite16_row iw sp co ro row s') rs None = None"
  by (induction rs) simp_all

lemma set_rows: "set (map (of_nat :: nat \<Rightarrow> uint8) [0..<unat h]) = {r. r < h}"
proof (rule set_eqI)
  fix r :: uint8
  show "r \<in> set (map of_nat [0..<unat h]) \<longleftrightarrow> r \<in> {r. r < h}"
  proof
    assume "r \<in> set (map of_nat [0..<unat h])"
    then obtain k where k: "k < unat h" and r: "r = of_nat k"
      by auto
    have "unat r \<le> k"
      by (simp add: r unat_of_nat)
    with k show "r \<in> {r. r < h}"
      by (simp add: word_less_nat_alt)
  next
    assume "r \<in> {r. r < h}"
    then have "unat r < unat h"
      by (simp add: word_less_nat_alt)
    then have "of_nat (unat r) \<in> (of_nat :: nat \<Rightarrow> uint8) ` {0..<unat h}"
      by (intro imageI) simp
    then show "r \<in> set (map of_nat [0..<unat h])"
      by simp
  qed
qed

lemma drawSprite16_defined:
  assumes "length (buffer s) = 8" and "unat co < iw"
  shows "\<exists>s'. drawSprite16 iw s sp co ro = Some s'
       \<and> length (buffer s') = 8
       \<and> (\<forall>i<8. \<forall>n. bit (buffer s' ! i) n \<longleftrightarrow>
             bit (buffer s ! i) n \<or>
             (\<exists>r. r < height sp \<and> (unat r + unat ro) mod 8 = i \<and>
                bit (push_bit (unat co) (uint (readRow sp r)) AND (0xFFFF :: int)) n))"
  using draw_fold [OF assms(2) assms(1), of sp ro "map of_nat [0..<unat (height sp)]"]
  unfolding drawSprite16_def for_u8_def set_rows by auto

lemma drawSprite16_undefined:
  assumes "\<not> unat co < iw" and "0 < height sp"
  shows "drawSprite16 iw s sp co ro = None"
proof -
  from assms(2) have "0 < unat (height sp)"
    by (simp add: word_less_nat_alt)
  then have rows: "[0..<unat (height sp)] = 0 # [1..<unat (height sp)]"
    by (simp add: upt_rec)
  show ?thesis
    unfolding drawSprite16_def for_u8_def rows
    by (simp add: drawSprite16_row_None [OF assms(1)] draw_fold_undefined [OF assms(1)])
qed

lemma drawSprite16_on_clear:
  assumes "length (buffer s) = 8" and "0 < iw" and "height sp \<le> 8"
  shows "\<exists>s'. drawSprite16 iw (clear s) sp 0 0 = Some s'
       \<and> (\<forall>i<8. buffer s' ! i = (if i < unat (height sp) then readRow sp (of_nat i) else 0))"
proof -
  have cs: "clear s = s\<lparr>buffer := replicate 8 0\<rparr>"
    using assms(1) by (rule clear_buffer)
  have len: "length (buffer (clear s)) = 8"
    by (simp add: cs)
  have co: "unat (0 :: uint8) < iw"
    using assms(2) by simp
  have h8: "unat (height sp) \<le> 8"
    using assms(3) by (simp add: word_le_nat_alt)
  from drawSprite16_defined [OF len co, of sp 0] obtain s' where
    run: "drawSprite16 iw (clear s) sp 0 0 = Some s'"
    and bits: "\<forall>i<8. \<forall>n. bit (buffer s' ! i) n \<longleftrightarrow>
             bit (buffer (clear s) ! i) n \<or>
             (\<exists>r. r < height sp \<and> (unat r + unat (0 :: uint8)) mod 8 = i \<and>
                bit (push_bit (unat (0 :: uint8)) (uint (readRow sp r)) AND (0xFFFF :: int)) n)"
    by blast
  have row: "buffer s' ! i = (if i < unat (height sp) then readRow sp (of_nat i) else 0)"
    if i: "i < 8" for i
  proof (rule bit_word_eqI)
    fix n
    have zero: "buffer (clear s) ! i = 0"
      using i by (simp add: cs)
    have ui: "unat (of_nat i :: uint8) = i"
      using i by (simp add: unat_of_nat)
    have val: "bit (uint (readRow sp r) AND (0xFFFF :: int)) n \<longleftrightarrow> bit (readRow sp r) n"
      for r
      by (auto simp: bit_and_ffff_int bit_uint_iff dest: bit_imp_le_length)
    have "bit (buffer s' ! i) n \<longleftrightarrow>
        (\<exists>r. r < height sp \<and> unat r mod 8 = i \<and> bit (readRow sp r) n)"
      using bits i by (simp add: zero val)
    also have "\<dots> \<longleftrightarrow> (\<exists>r. r < height sp \<and> unat r = i \<and> bit (readRow sp r) n)"
      using h8 by (auto simp: word_less_nat_alt)
    also have "\<dots> \<longleftrightarrow> i < unat (height sp) \<and> bit (readRow sp (of_nat i)) n"
    proof
      assume "\<exists>r. r < height sp \<and> unat r = i \<and> bit (readRow sp r) n"
      then obtain r where "r < height sp" and "unat r = i" and "bit (readRow sp r) n"
        by blast
      then show "i < unat (height sp) \<and> bit (readRow sp (of_nat i)) n"
        by (auto simp: word_less_nat_alt)
    next
      assume "i < unat (height sp) \<and> bit (readRow sp (of_nat i)) n"
      with ui show "\<exists>r. r < height sp \<and> unat r = i \<and> bit (readRow sp r) n"
        by (intro exI [of _ "of_nat i"]) (simp add: word_less_nat_alt)
    qed
    finally show "bit (buffer s' ! i) n \<longleftrightarrow>
        bit (if i < unat (height sp) then readRow sp (of_nat i) else 0) n"
      by simp
  qed
  from run row show ?thesis
    by blast
qed

lemma drawSprite16_example:
  "drawSprite16 16 example_state example_sprite 1 6 =
     Some (example_state\<lparr>buffer := [6, 0, 0, 5, 0, 0, 2, 4]\<rparr>)"
  by (simp add: drawSprite16_def for_u8_def upt_rec drawSprite16_row_def shift_left_int_def
      Let_def example_state_def example_sprite_def list_update_Cons_numeral)

text \<open>
  C8, as the spec states it, fails: it promises for every \<open>colOffset\<close> that the rows are
  ORed in shifted by \<open>colOffset\<close>, but \<open>colOffset\<close> reaches the shift unmasked, and from
  the width of \<open>int\<close> on the shift has no defined result. With the three-row example
  sprite, \<open>colOffset = 32\<close> on a 32-bit \<open>int\<close> and \<open>colOffset = 16\<close> on a 16-bit \<open>int\<close>
  leave the call without a result.
\<close>

theorem drawSprite16_colOffset_counterexample:
  "drawSprite16 32 example_state example_sprite 32 0 = None
   \<and> drawSprite16 16 example_state example_sprite 16 0 = None"
  by (simp add: drawSprite16_undefined example_sprite_def)

text \<open>
  C8, amended: for a \<open>colOffset\<close> below the width of \<open>int\<close>, \<open>drawSprite16\<close> returns and
  ORs into the buffer: a bit of buffer row \<open>i\<close> is set afterwards if and only if it was
  set before, or it is set in \<open>(readRow(r) << colOffset) & 0xFFFF\<close> for a sprite row \<open>r\<close>
  below the height with \<open>(r + rowOffset) mod 8 = i\<close>; the buffer keeps its 8 rows. With
  both offsets zero on a cleared buffer and a sprite of at most 8 rows (what the data
  model says of sprites), buffer row \<open>i\<close> is sprite row \<open>i\<close> masked to 16 bits for \<open>i\<close>
  below the height, and zero from the height on.
\<close>

theorem drawSprite16_ors_rows:
  "length (buffer s) = 8 \<Longrightarrow> i < 8 \<Longrightarrow> unat colOffset < int_width \<Longrightarrow>
     (\<exists>s'. drawSprite16 int_width s sprite colOffset rowOffset = Some s'
         \<and> length (buffer s') = 8
         \<and> (bit (buffer s' ! i) n \<longleftrightarrow>
               bit (buffer s ! i) n \<or>
               (\<exists>r. r < height sprite \<and> (unat r + unat rowOffset) mod 8 = i \<and>
                    bit (push_bit (unat colOffset) (uint (readRow sprite r)) AND (0xFFFF :: int)) n)))
   \<and> (height sprite \<le> 8 \<longrightarrow>
        (\<exists>s'. drawSprite16 int_width (clear s) sprite 0 0 = Some s'
            \<and> buffer s' ! i =
                (if i < unat (height sprite) then readRow sprite (of_nat i) AND 0xFFFF else 0)))"
proof (intro conjI impI)
  assume len: "length (buffer s) = 8" and i: "i < 8" and co: "unat colOffset < int_width"
  from drawSprite16_defined [OF len co, of sprite rowOffset] i
  show "\<exists>s'. drawSprite16 int_width s sprite colOffset rowOffset = Some s'
         \<and> length (buffer s') = 8
         \<and> (bit (buffer s' ! i) n \<longleftrightarrow>
               bit (buffer s ! i) n \<or>
               (\<exists>r. r < height sprite \<and> (unat r + unat rowOffset) mod 8 = i \<and>
                    bit (push_bit (unat colOffset) (uint (readRow sprite r)) AND (0xFFFF :: int)) n))"
    by blast
next
  assume len: "length (buffer s) = 8" and i: "i < 8" and co: "unat colOffset < int_width"
    and h: "height sprite \<le> 8"
  from co have iw: "0 < int_width"
    by simp
  have mask: "readRow sprite (of_nat i) AND 0xFFFF = readRow sprite (of_nat i)"
    by (rule and_ffff)
  from drawSprite16_on_clear [OF len iw h] i
  show "\<exists>s'. drawSprite16 int_width (clear s) sprite 0 0 = Some s'
            \<and> buffer s' ! i =
                (if i < unat (height sprite) then readRow sprite (of_nat i) AND 0xFFFF else 0)"
    unfolding mask by blast
qed

theorem drawSprite16_ors_rows_witness:
  "length (buffer example_state) = 8 \<and> (1 :: nat) < 8 \<and> unat (1 :: uint8) < (16 :: nat)
   \<and> height example_sprite \<le> 8
   \<and> drawSprite16 16 example_state example_sprite 1 6 \<noteq> None
   \<and> (\<exists>s'. drawSprite16 16 (clear example_state) example_sprite 0 0 = Some s'
          \<and> buffer s' ! 1 = 0x8002)"
proof -
  have len: "length (buffer example_state) = 8"
    by (simp add: example_state_def)
  have i: "(1 :: nat) < 8"
    by simp
  have co: "unat (1 :: uint8) < (16 :: nat)"
    by simp
  have h: "height example_sprite \<le> 8"
    by (simp add: example_sprite_def)
  have row: "readRow example_sprite (of_nat 1) AND 0xFFFF = 0x8002"
    by (simp add: example_sprite_def)
  have lt: "1 < unat (height example_sprite)"
    by (simp add: example_sprite_def)
  from drawSprite16_ors_rows [OF len i co, where sprite = example_sprite and rowOffset = 6]
    len i co h row lt
  show ?thesis
    by auto
qed

end
